theory Spec2Isabelle
  imports Main
begin

section \<open>GridWorldEnv: a shallow embedding of the class in \<^verbatim>\<open>trial_04_custom_env.py\<close>\<close>

text \<open>
  The environment keeps two positions on a square grid. Both are numpy arrays of shape
  \<open>(2,)\<close>; they are modelled as pairs of integers. The arrays are never written in
  place (every assignment binds a fresh array), so a pair per field is all the state
  there is. The arrays hold 64-bit integers (\<open>dtype=int\<close>; the sum of the 32-bit
  initial array and a 64-bit direction is 64-bit too), whose sums and differences wrap
  around; the grid's \<open>size\<close> is a Python integer and does not.
\<close>

subsection \<open>The numpy operations the class uses\<close>

type_synonym array2 = "int \<times> int"

text \<open>The value a 64-bit signed integer holds after an operation whose exact result is \<open>x\<close>.\<close>

definition wrap64 :: "int \<Rightarrow> int" where
  "wrap64 x = (x + 2 ^ 63) mod 2 ^ 64 - 2 ^ 63"

definition vadd :: "array2 \<Rightarrow> array2 \<Rightarrow> array2" where
  "vadd a b = (wrap64 (fst a + fst b), wrap64 (snd a + snd b))"

definition vsub :: "array2 \<Rightarrow> array2 \<Rightarrow> array2" where
  "vsub a b = (wrap64 (fst a - fst b), wrap64 (snd a - snd b))"

text \<open>
  \<open>np.clip(a, a_min, a_max)\<close> is \<open>np.minimum(a_max, np.maximum(a, a_min))\<close>, element by
  element; where \<open>a_min > a_max\<close> every element of the result is \<open>a_max\<close>.
\<close>

definition clip :: "array2 \<Rightarrow> int \<Rightarrow> int \<Rightarrow> array2" where
  "clip a a_min a_max = (min (max (fst a) a_min) a_max, min (max (snd a) a_min) a_max)"

definition array_equal :: "array2 \<Rightarrow> array2 \<Rightarrow> bool" where
  "array_equal a b = (fst a = fst b \<and> snd a = snd b)"

text \<open>
  \<open>np.linalg.norm(x, ord=1)\<close> on an integer vector converts it to 64-bit floats, takes
  the absolute values and adds them. A float of 53 significant bits holds an integer
  \<open>n\<close> exactly only if \<open>|n| \<le> 2\<^sup>5\<^sup>3\<close> or \<open>n\<close> is a multiple of its unit in the last place;
  otherwise the conversion, like the addition, rounds to the nearest float, and to the
  one with the even significand on a tie. Every float that occurs here has an integer
  value, and the model keeps that value: \<open>float64_of_int n\<close> is the float nearest to
  \<open>n\<close>, and \<open>ulp_exp m\<close> the exponent of the unit in the last place of the floats
  around \<open>m\<close>.
\<close>

function ulp_exp :: "nat \<Rightarrow> nat" where
  "ulp_exp m = (if m < 2 ^ 53 then 0 else Suc (ulp_exp (m div 2)))"
  by pat_completeness auto
termination
  by (relation "measure id") auto

declare ulp_exp.simps [simp del]

definition float64_of_int :: "int \<Rightarrow> int" where
  "float64_of_int n =
     (let m = nat \<bar>n\<bar>;
          e = ulp_exp m;
          q = m div 2 ^ e;
          r = m mod 2 ^ e;
          q' = (if 2 ^ e < 2 * r \<or> (2 * r = 2 ^ e \<and> odd q) then q + 1 else q)
      in sgn n * int (q' * 2 ^ e))"

definition norm_ord1 :: "array2 \<Rightarrow> int" where
  "norm_ord1 a = float64_of_int (\<bar>float64_of_int (fst a)\<bar> + \<bar>float64_of_int (snd a)\<bar>)"

subsection \<open>Errors, observations and the environment\<close>

text \<open>
  \<open>KeyError k\<close> is what the dictionary lookup of \<open>step\<close> raises on a missing key.
  \<open>ValueError\<close> and \<open>GymError\<close> are raised by the libraries only (numpy and the
  \<open>Box\<close> constructor; gymnasium's seeding); the class itself raises nothing else.
\<close>

datatype error = KeyError int | ValueError | GymError

record obs_dict =
  agent :: array2
  target :: array2

text \<open>\<open>distance\<close> is the value of the float under the key \<open>"distance"\<close>.\<close>

record info_dict =
  distance :: int

record step_result =
  observation :: obs_dict
  reward :: int
  terminated :: bool
  truncated :: bool
  info :: info_dict

text \<open>
  The fields of a \<open>GridWorldEnv\<close>. \<open>'b\<close> is the type of a \<open>gym.spaces.Box\<close>, \<open>'g\<close>
  the type of a random generator's state; \<open>np_random\<close> is \<open>None\<close> until the base
  class creates a generator. \<open>action_space\<close> is the \<open>n\<close> of \<open>Discrete(n)\<close>,
  \<open>observation_space\<close> the boxes under the keys \<open>"agent"\<close> and \<open>"target"\<close>.
\<close>

record ('b, 'g) env =
  size_env :: int
  agent_location :: array2
  target_location :: array2
  observation_space :: "'b \<times> 'b"
  action_space :: nat
  np_random :: "'g option"

text \<open>
  The table \<open>_action_to_direction\<close>. \<open>__init__\<close> builds the same table for every
  instance and nothing writes to it afterwards, so it is a constant here.
\<close>

definition action_to_direction :: "int \<rightharpoonup> array2" where
  "action_to_direction = [0 \<mapsto> (1, 0), 1 \<mapsto> (0, 1), 2 \<mapsto> (- 1, 0), 3 \<mapsto> (0, - 1)]"

text \<open>
  \<open>__init__\<close>. The constructor of \<open>Box\<close> belongs to the library and is a parameter:
  \<open>box low high\<close> is its outcome for the bounds \<open>low\<close> and \<open>high\<close> (shape and dtype
  are the same in both calls). The class checks nothing about \<open>size\<close> itself.
  \<open>box_checks_bounds\<close> is what the library's constructor does with its bounds: it
  raises \<open>ValueError\<close> where \<open>low > high\<close>, and builds the box otherwise.
\<close>

definition box_checks_bounds :: "(int \<Rightarrow> int \<Rightarrow> error + 'b) \<Rightarrow> bool" where
  "box_checks_bounds box =
     (\<forall>low high. (high < low \<longrightarrow> box low high = Inl ValueError) \<and>
                 (low \<le> high \<longrightarrow> (\<exists>b. box low high = Inr b)))"

definition init :: "(int \<Rightarrow> int \<Rightarrow> error + 'b) \<Rightarrow> int \<Rightarrow> error + ('b, 'g) env" where
  "init box size' =
     (case box 0 (size' - 1) of
        Inl e \<Rightarrow> Inl e
      | Inr agent_box \<Rightarrow>
          (case box 0 (size' - 1) of
             Inl e \<Rightarrow> Inl e
           | Inr target_box \<Rightarrow>
               Inr \<lparr>size_env = size',
                    agent_location = (- 1, - 1),
                    target_location = (- 1, - 1),
                    observation_space = (agent_box, target_box),
                    action_space = 4,
                    np_random = None\<rparr>))"

definition get_obs :: "('b, 'g) env \<Rightarrow> obs_dict" where
  "get_obs s = \<lparr>agent = agent_location s, target = target_location s\<rparr>"

definition get_info :: "('b, 'g) env \<Rightarrow> info_dict" where
  "get_info s = \<lparr>distance = norm_ord1 (vsub (agent_location s) (target_location s))\<rparr>"

subsection \<open>step\<close>

text \<open>
  A call returns the environment as the call leaves it, and either the exception it
  raised or its value.
\<close>

definition step :: "('b, 'g) env \<Rightarrow> int \<Rightarrow> ('b, 'g) env \<times> (error + step_result)" where
  "step s action =
     (case action_to_direction action of
        None \<Rightarrow> (s, Inl (KeyError action))
      | Some direction \<Rightarrow>
          (let s' = s\<lparr>agent_location :=
                        clip (vadd (agent_location s) direction) 0 (size_env s - 1)\<rparr>;
               terminated' = array_equal (agent_location s') (target_location s');
               truncated' = False;
               reward' = (if terminated' then 1 else 0);
               observation' = get_obs s';
               info' = get_info s'
           in (s', Inr \<lparr>observation = observation', reward = reward',
                        terminated = terminated', truncated = truncated',
                        info = info'\<rparr>)))"

subsection \<open>reset\<close>

text \<open>
  The random source is the library's. Its two operations are parameters:
  \<^item> \<open>seeding n\<close> is the generator that \<open>super().reset(seed=n)\<close> installs, or the
    exception the library raises for a seed it refuses;
  \<^item> \<open>integers g low high\<close> is \<open>g.integers(low, high, size=2, dtype=int)\<close>: the
    generator's next state, and the sample or the exception raised.
  \<open>entropy\<close> is the generator the base class creates from the operating system's
  entropy when \<open>np_random\<close> is read before any seed was given.
\<close>

text \<open>
  Modelled from the spec: the base class \<open>gym.Env\<close>, whose \<open>reset\<close> and \<open>np_random\<close>
  the class calls, is not among the sources. The specification and the comment in
  \<open>reset\<close> say what the call \<open>super().reset(seed=seed)\<close> is for: given a seed, it
  reseeds the environment's random source from that seed alone. \<open>super_reset\<close> installs
  the generator \<open>seeding n\<close> for the seed \<open>n\<close> and leaves the environment alone when
  no seed is given or the seed is refused; \<open>np_random_get\<close> reads the generator and
  creates one first where none is installed.
\<close>

definition super_reset ::
  "(int \<Rightarrow> error + 'g) \<Rightarrow> int option \<Rightarrow> ('b, 'g) env \<Rightarrow> ('b, 'g) env \<times> (error + unit)" where
  "super_reset seeding seed s =
     (case seed of
        None \<Rightarrow> (s, Inr ())
      | Some n \<Rightarrow>
          (case seeding n of
             Inl e \<Rightarrow> (s, Inl e)
           | Inr g \<Rightarrow> (s\<lparr>np_random := Some g\<rparr>, Inr ())))"

definition np_random_get :: "'g \<Rightarrow> ('b, 'g) env \<Rightarrow> ('b, 'g) env \<times> 'g" where
  "np_random_get entropy s =
     (case np_random s of
        None \<Rightarrow> (s\<lparr>np_random := Some entropy\<rparr>, entropy)
      | Some g \<Rightarrow> (s, g))"

text \<open>\<open>self.np_random.integers(0, self.size, size=2, dtype=int)\<close>\<close>

definition draw ::
  "('g \<Rightarrow> int \<Rightarrow> int \<Rightarrow> 'g \<times> (error + array2)) \<Rightarrow> 'g \<Rightarrow> ('b, 'g) env
     \<Rightarrow> ('b, 'g) env \<times> (error + array2)" where
  "draw integers entropy s =
     (case np_random_get entropy s of
        (s1, g) \<Rightarrow>
          (case integers g 0 (size_env s1) of
             (g', r) \<Rightarrow> (s1\<lparr>np_random := Some g'\<rparr>, r)))"

text \<open>
  The \<open>while\<close> loop of \<open>reset\<close>. It may run forever, which is the value \<open>None\<close>.
\<close>

partial_function (option) resample_target ::
  "('g \<Rightarrow> int \<Rightarrow> int \<Rightarrow> 'g \<times> (error + array2)) \<Rightarrow> 'g \<Rightarrow> ('b, 'g) env
     \<Rightarrow> (('b, 'g) env \<times> (error + unit)) option" where
  "resample_target integers entropy s =
     (if array_equal (target_location s) (agent_location s) then
        (case draw integers entropy s of
           (s', Inl e) \<Rightarrow> Some (s', Inl e)
         | (s', Inr p) \<Rightarrow> resample_target integers entropy (s'\<lparr>target_location := p\<rparr>))
      else Some (s, Inr ()))"

declare resample_target.simps [code]

text \<open>\<open>options\<close> is never read and is left out.\<close>

definition reset ::
  "(int \<Rightarrow> error + 'g) \<Rightarrow> ('g \<Rightarrow> int \<Rightarrow> int \<Rightarrow> 'g \<times> (error + array2)) \<Rightarrow> 'g \<Rightarrow> int option
     \<Rightarrow> ('b, 'g) env \<Rightarrow> (('b, 'g) env \<times> (error + obs_dict \<times> info_dict)) option" where
  "reset seeding integers entropy seed s =
     (case super_reset seeding seed s of
        (s1, Inl e) \<Rightarrow> Some (s1, Inl e)
      | (s1, Inr _) \<Rightarrow>
          (case draw integers entropy s1 of
             (s2, Inl e) \<Rightarrow> Some (s2, Inl e)
           | (s2, Inr p) \<Rightarrow>
               (let s3 = s2\<lparr>agent_location := p\<rparr>;
                    s4 = s3\<lparr>target_location := agent_location s3\<rparr>
                in (case resample_target integers entropy s4 of
                      None \<Rightarrow> None
                    | Some (s5, Inl e) \<Rightarrow> Some (s5, Inl e)
                    | Some (s5, Inr _) \<Rightarrow> Some (s5, Inr (get_obs s5, get_info s5))))))"

subsection \<open>Runs, the grid, and the library's contract\<close>

text \<open>
  A harness that calls \<open>step\<close> once for each action of a list, in order; the result is
  the environment it leaves.
\<close>

fun run_steps :: "('b, 'g) env \<Rightarrow> int list \<Rightarrow> ('b, 'g) env" where
  "run_steps s [] = s"
| "run_steps s (a # as) = run_steps (fst (step s a)) as"

text \<open>Both positions lie in \<open>[0, size - 1]\<^sup>2\<close>.\<close>

definition in_grid :: "('b, 'g) env \<Rightarrow> bool" where
  "in_grid s =
     (0 \<le> fst (agent_location s) \<and> fst (agent_location s) \<le> size_env s - 1 \<and>
      0 \<le> snd (agent_location s) \<and> snd (agent_location s) \<le> size_env s - 1 \<and>
      0 \<le> fst (target_location s) \<and> fst (target_location s) \<le> size_env s - 1 \<and>
      0 \<le> snd (target_location s) \<and> snd (target_location s) \<le> size_env s - 1)"

text \<open>
  What numpy promises of \<open>Generator.integers(low, high)\<close>: every sample it returns
  lies in the half-open interval from \<open>low\<close> to \<open>high\<close>.
\<close>

definition integers_in_range :: "('g \<Rightarrow> int \<Rightarrow> int \<Rightarrow> 'g \<times> (error + array2)) \<Rightarrow> bool" where
  "integers_in_range integers =
     (\<forall>g low high g' p. integers g low high = (g', Inr p) \<longrightarrow>
        low \<le> fst p \<and> fst p < high \<and> low \<le> snd p \<and> snd p < high)"

text \<open>
  Two environments that agree on everything a run of \<open>reset\<close> reads once a generator
  is installed: the size, the generator, and (for \<open>same_run\<close>) both positions.
\<close>

definition same_rng :: "('b, 'g) env \<Rightarrow> ('b, 'g) env \<Rightarrow> bool" where
  "same_rng s t =
     (size_env s = size_env t \<and>
      (case np_random s of None \<Rightarrow> False | Some g \<Rightarrow> np_random t = Some g))"

definition same_run :: "('b, 'g) env \<Rightarrow> ('b, 'g) env \<Rightarrow> bool" where
  "same_run s t =
     (same_rng s t \<and> agent_location s = agent_location t \<and>
      target_location s = target_location t)"

subsection \<open>The specification's wording of a move\<close>

text \<open>
  The specification gives the direction of an action by cases, and clamps a coordinate
  by saturating it at the nearer bound. These two definitions follow its words; the
  program's are \<open>action_to_direction\<close> and \<open>clip\<close>.
\<close>

definition spec_direction :: "int \<Rightarrow> array2" where
  "spec_direction a =
     (if a = 0 then (1, 0) else if a = 1 then (0, 1) else if a = 2 then (- 1, 0) else (0, - 1))"

definition saturate :: "int \<Rightarrow> int \<Rightarrow> int \<Rightarrow> int" where
  "saturate lo hi x = (if x < lo then lo else if hi < x then hi else x)"

subsection \<open>A small instance of the library, for concrete runs\<close>

text \<open>
  \<open>box_checked\<close> is a \<open>Box\<close> constructor that refuses bounds with \<open>low > high\<close> and
  accepts all others. \<open>demo_seeding\<close> refuses negative seeds; the generator it makes
  is a counter, and \<open>demo_integers\<close> reads a sample off the counter: the samples of
  the generator seeded with 0 start \<open>(0,0), (0,0), (1,0), (1,1)\<close> on a grid of size 5.
\<close>

definition box_checked :: "int \<Rightarrow> int \<Rightarrow> error + int \<times> int" where
  "box_checked low high = (if high < low then Inl ValueError else Inr (low, high))"

definition demo_seeding :: "int \<Rightarrow> error + nat" where
  "demo_seeding seed = (if seed < 0 then Inl GymError else Inr (nat seed))"

definition demo_integers :: "nat \<Rightarrow> int \<Rightarrow> int \<Rightarrow> nat \<times> (error + array2)" where
  "demo_integers g low high =
     (if high \<le> low then (g, Inl ValueError)
      else (g + 1, Inr (low + int (g div 2) mod (high - low),
                        low + int (g div 3) mod (high - low))))"

definition demo_env :: "int \<Rightarrow> array2 \<Rightarrow> array2 \<Rightarrow> (int \<times> int, nat) env" where
  "demo_env n a t =
     \<lparr>size_env = n, agent_location = a, target_location = t,
      observation_space = ((0, n - 1), (0, n - 1)), action_space = 4, np_random = None\<rparr>"

section \<open>Integer and float arithmetic\<close>

lemma wrap64_id: "- (2 ^ 63) \<le> x \<Longrightarrow> x < 2 ^ 63 \<Longrightarrow> wrap64 x = x"
  by (simp add: wrap64_def)

lemma ulp_exp_small: "m < 2 ^ 53 \<Longrightarrow> ulp_exp m = 0"
  by (simp add: ulp_exp.simps)

lemma float64_of_int_exact:
  assumes "\<bar>n\<bar> < 2 ^ 53"
  shows "float64_of_int n = n"
proof -
  from assms have "nat \<bar>n\<bar> < 2 ^ 53" by (simp add: nat_less_iff)
  then have "ulp_exp (nat \<bar>n\<bar>) = 0" by (rule ulp_exp_small)
  then show ?thesis by (simp add: float64_of_int_def Let_def sgn_if)
qed



lemma norm_ord1_exact:
  assumes "\<bar>fst a\<bar> + \<bar>snd a\<bar> < 2 ^ 53"
  shows "norm_ord1 a = \<bar>fst a\<bar> + \<bar>snd a\<bar>"
proof -
  from assms have "\<bar>fst a\<bar> < 2 ^ 53" and "\<bar>snd a\<bar> < 2 ^ 53" by linarith+
  then have "float64_of_int (fst a) = fst a" and "float64_of_int (snd a) = snd a"
    by (simp_all add: float64_of_int_exact)
  moreover from assms have "\<bar>\<bar>fst a\<bar> + \<bar>snd a\<bar>\<bar> < 2 ^ 53" by simp
  ultimately show ?thesis
    by (simp only: norm_ord1_def float64_of_int_exact)
qed

lemma vsub_exact:
  assumes "\<bar>fst a - fst b\<bar> < 2 ^ 63" and "\<bar>snd a - snd b\<bar> < 2 ^ 63"
  shows "vsub a b = (fst a - fst b, snd a - snd b)"
  using assms by (simp add: vsub_def wrap64_id)

lemma vadd_exact:
  assumes "\<bar>fst a + fst b\<bar> < 2 ^ 63" and "\<bar>snd a + snd b\<bar> < 2 ^ 63"
  shows "vadd a b = (fst a + fst b, snd a + snd b)"
  using assms by (simp add: vadd_def wrap64_id)

section \<open>Properties of step\<close>

lemma action_to_direction_None: "a \<notin> {0, 1, 2, 3} \<Longrightarrow> action_to_direction a = None"
  by (simp add: action_to_direction_def)

lemma action_to_direction_Some:
  "a \<in> {0, 1, 2, 3} \<Longrightarrow> action_to_direction a = Some (spec_direction a)"
  by (auto simp: action_to_direction_def spec_direction_def)

text \<open>What a call with a valid action returns, written out.\<close>

lemma step_valid:
  assumes "a \<in> {0, 1, 2, 3}"
  shows "step s a =
    (s\<lparr>agent_location := clip (vadd (agent_location s) (spec_direction a)) 0 (size_env s - 1)\<rparr>,
     Inr \<lparr>observation =
            \<lparr>agent = clip (vadd (agent_location s) (spec_direction a)) 0 (size_env s - 1),
             target = target_location s\<rparr>,
          reward =
            (if array_equal (clip (vadd (agent_location s) (spec_direction a)) 0 (size_env s - 1))
                  (target_location s)
             then 1 else 0),
          terminated =
            array_equal (clip (vadd (agent_location s) (spec_direction a)) 0 (size_env s - 1))
              (target_location s),
          truncated = False,
          info =
            \<lparr>distance =
               norm_ord1 (vsub (clip (vadd (agent_location s) (spec_direction a)) 0 (size_env s - 1))
                 (target_location s))\<rparr>\<rparr>)"
  using assms by (simp add: step_def action_to_direction_Some Let_def get_obs_def get_info_def)

lemma clip_saturate:
  "lo \<le> hi \<Longrightarrow> clip a lo hi = (saturate lo hi (fst a), saturate lo hi (snd a))"
  by (auto simp: clip_def saturate_def)

lemma spec_direction_bounds:
  "\<bar>fst (spec_direction a)\<bar> \<le> 1" "\<bar>snd (spec_direction a)\<bar> \<le> 1"
  by (simp_all add: spec_direction_def)

text \<open>
  Claim C1. For every state \<open>s\<close> (so for every state a reset leaves) and every action
  \<open>a\<close> in \<open>{0,1,2,3}\<close>, \<open>step\<close> returns normally and leaves \<open>s\<close> with the agent
  moved: at the old position plus the direction of \<open>a\<close>, clipped into the grid.
  \<open>terminated\<close> is true exactly when that position equals the target's in both
  coordinates; \<open>reward\<close> is 1 when \<open>terminated\<close> and 0 otherwise; \<open>truncated\<close> is false.
\<close>

theorem step_terminated_reward:
  assumes "a \<in> {0, 1, 2, 3}"
  shows "\<exists>moved r.
           moved = clip (vadd (agent_location s) (spec_direction a)) 0 (size_env s - 1) \<and>
           step s a = (s\<lparr>agent_location := moved\<rparr>, Inr r) \<and>
           (terminated r \<longleftrightarrow>
              fst moved = fst (target_location s) \<and> snd moved = snd (target_location s)) \<and>
           reward r = (if terminated r then 1 else 0) \<and>
           \<not> truncated r"
  using assms by (simp add: step_valid array_equal_def)

theorem step_terminated_reward_witness:
  "(0::int) \<in> {0, 1, 2, 3} \<and>
   clip (vadd (agent_location (demo_env 5 (2, 2) (3, 2))) (spec_direction 0)) 0
     (size_env (demo_env 5 (2, 2) (3, 2)) - 1) = (3, 2) \<and>
   (\<exists>r. step (demo_env 5 (2, 2) (3, 2)) 0 = (demo_env 5 (3, 2) (3, 2), Inr r) \<and>
        terminated r \<and> reward r = 1 \<and> \<not> truncated r)"
proof -
  have m: "clip (vadd (agent_location (demo_env 5 (2, 2) (3, 2))) (spec_direction 0)) 0
     (size_env (demo_env 5 (2, 2) (3, 2)) - 1) = (3, 2)"
    by (simp add: demo_env_def spec_direction_def vadd_def wrap64_def clip_def)
  from step_terminated_reward [of 0 "demo_env 5 (2, 2) (3, 2)"] m
  show ?thesis by (auto simp: demo_env_def)
qed

text \<open>
  Claim C2, as stated: for every state a reset leaves, \<open>step\<close> sets the agent's position
  to the old position plus the direction, clamped. On a grid of size \<open>2\<^sup>6\<^sup>3\<close>, with the
  agent in the last column, the 64-bit sum of the action 0 wraps around to \<open>-2\<^sup>6\<^sup>3\<close>
  and is clipped to 0, where the clamped sum is \<open>2\<^sup>6\<^sup>3 - 1\<close>.
\<close>

theorem step_wraps_at_int64_max:
  "in_grid (demo_env 9223372036854775808 (9223372036854775807, 0) (5, 5)) \<and>
   agent_location (fst (step (demo_env 9223372036854775808 (9223372036854775807, 0) (5, 5)) 0))
     = (0, 0) \<and>
   (saturate 0 (9223372036854775808 - 1) (9223372036854775807 + fst (spec_direction 0)),
    saturate 0 (9223372036854775808 - 1) (0 + snd (spec_direction 0)))
     = (9223372036854775807, 0)"
  by (simp add: step_valid demo_env_def in_grid_def spec_direction_def vadd_def wrap64_def
      clip_def saturate_def)

text \<open>
  Claim C2, amended. On every grid of a size below \<open>2\<^sup>6\<^sup>3\<close>, for every state with both
  positions in the grid (as they are after a reset) and every action \<open>a\<close> in
  \<open>{0,1,2,3}\<close>, \<open>step\<close> sets the agent's position to its old position plus the
  direction of \<open>a\<close>, each coordinate saturated into \<open>[0, size - 1]\<close> on its own, where
  the directions are \<open>(+1,0)\<close>, \<open>(0,+1)\<close>, \<open>(-1,0)\<close> and \<open>(0,-1)\<close> for 0, 1, 2 and 3.
  In particular, from \<open>(0,0)\<close> the actions 2 and 3 leave the position unchanged.
\<close>

theorem step_moves_and_clamps:
  assumes "in_grid s" and "size_env s < 2 ^ 63" and "a \<in> {0, 1, 2, 3}"
  shows "agent_location (fst (step s a)) =
           (saturate 0 (size_env s - 1) (fst (agent_location s) + fst (spec_direction a)),
            saturate 0 (size_env s - 1) (snd (agent_location s) + snd (spec_direction a))) \<and>
         (agent_location s = (0, 0) \<and> (a = 2 \<or> a = 3) \<longrightarrow>
            agent_location (fst (step s a)) = (0, 0))"
proof -
  from assms(1) have size: "0 \<le> size_env s - 1"
    and x: "0 \<le> fst (agent_location s)" "fst (agent_location s) \<le> size_env s - 1"
    and y: "0 \<le> snd (agent_location s)" "snd (agent_location s) \<le> size_env s - 1"
    by (auto simp: in_grid_def)
  from x assms(2) spec_direction_bounds(1) [of a]
  have "\<bar>fst (agent_location s) + fst (spec_direction a)\<bar> < 2 ^ 63" by linarith
  moreover from y assms(2) spec_direction_bounds(2) [of a]
  have "\<bar>snd (agent_location s) + snd (spec_direction a)\<bar> < 2 ^ 63" by linarith
  ultimately have v: "vadd (agent_location s) (spec_direction a) =
      (fst (agent_location s) + fst (spec_direction a),
       snd (agent_location s) + snd (spec_direction a))"
    by (rule vadd_exact)
  have moved: "agent_location (fst (step s a)) =
           (saturate 0 (size_env s - 1) (fst (agent_location s) + fst (spec_direction a)),
            saturate 0 (size_env s - 1) (snd (agent_location s) + snd (spec_direction a)))"
    by (simp add: step_valid [OF assms(3)] v clip_saturate [OF size])
  from size have "agent_location s = (0, 0) \<and> (a = 2 \<or> a = 3) \<longrightarrow>
      agent_location (fst (step s a)) = (0, 0)"
    by (auto simp: moved saturate_def spec_direction_def)
  with moved show ?thesis by simp
qed

theorem step_moves_and_clamps_witness:
  "in_grid (demo_env 5 (0, 0) (3, 2)) \<and>
   size_env (demo_env 5 (0, 0) (3, 2)) < 2 ^ 63 \<and> (2::int) \<in> {0, 1, 2, 3} \<and>
   agent_location (demo_env 5 (0, 0) (3, 2)) = (0, 0) \<and>
   agent_location (fst (step (demo_env 5 (0, 0) (3, 2)) 2)) =
     (saturate 0 (size_env (demo_env 5 (0, 0) (3, 2)) - 1)
        (fst (agent_location (demo_env 5 (0, 0) (3, 2))) + fst (spec_direction 2)),
      saturate 0 (size_env (demo_env 5 (0, 0) (3, 2)) - 1)
        (snd (agent_location (demo_env 5 (0, 0) (3, 2))) + snd (spec_direction 2))) \<and>
   agent_location (fst (step (demo_env 5 (0, 0) (3, 2)) 2)) = (0, 0)"
proof -
  have g: "in_grid (demo_env 5 (0, 0) (3, 2))" by (simp add: in_grid_def demo_env_def)
  have n: "size_env (demo_env 5 (0, 0) (3, 2)) < 2 ^ 63" by (simp add: demo_env_def)
  have a: "(2::int) \<in> {0, 1, 2, 3}" by simp
  from step_moves_and_clamps [OF g n a] g n show ?thesis
    by (simp add: demo_env_def spec_direction_def saturate_def)
qed

text \<open>
  Claim C5. \<open>step\<close> never changes the target's position: whatever the state and the
  action (valid or not), the environment it leaves has the target where it was.
\<close>

theorem step_target_unchanged: "target_location (fst (step s a)) = target_location s"
  by (simp add: step_def Let_def split: option.split)

theorem step_target_unchanged_witness:
  "target_location (fst (step (demo_env 5 (2, 2) (3, 2)) 0)) = (3, 2)"
  using step_target_unchanged [of "demo_env 5 (2, 2) (3, 2)" 0]
  by (simp add: demo_env_def)

text \<open>
  Claim C8. For every action outside \<open>{0,1,2,3}\<close> the lookup in the direction table
  finds no entry and \<open>step\<close> fails with the lookup's error (Python's \<open>KeyError\<close>);
  the environment it leaves is the one it was given, so neither position has changed.
\<close>

theorem step_invalid_action:
  "a \<notin> {0, 1, 2, 3} \<Longrightarrow> step s a = (s, Inl (KeyError a))"
  by (simp add: step_def action_to_direction_None)

theorem step_invalid_action_witness:
  "(7::int) \<notin> {0, 1, 2, 3} \<and>
   step (demo_env 5 (2, 2) (3, 2)) 7 = (demo_env 5 (2, 2) (3, 2), Inl (KeyError 7))"
  using step_invalid_action [of 7 "demo_env 5 (2, 2) (3, 2)"] by simp

section \<open>Properties of reset\<close>

subsection \<open>Drawing a sample\<close>

lemma draw_frame:
  assumes "draw integers entropy s = (s', r)"
  shows "size_env s' = size_env s" "agent_location s' = agent_location s"
        "target_location s' = target_location s" "observation_space s' = observation_space s"
        "action_space s' = action_space s" "np_random s' \<noteq> None"
  using assms
  by (auto simp: draw_def np_random_get_def split: option.splits prod.splits)

lemma draw_in_range:
  assumes "integers_in_range integers" and "draw integers entropy s = (s', Inr p)"
  shows "0 \<le> fst p \<and> fst p \<le> size_env s - 1 \<and> 0 \<le> snd p \<and> snd p \<le> size_env s - 1"
proof -
  from assms(2) obtain g g' where "integers g 0 (size_env s) = (g', Inr p)"
    by (auto simp: draw_def np_random_get_def split: option.splits prod.splits)
  with assms(1) have "0 \<le> fst p \<and> fst p < size_env s \<and> 0 \<le> snd p \<and> snd p < size_env s"
    unfolding integers_in_range_def by blast
  then show ?thesis by simp
qed

subsection \<open>The resampling loop\<close>

text \<open>
  An induction rule for the runs of the loop that return: a property holds of every such
  run if it holds where the loop stops at once, where the draw raises, and where it is
  passed from the rest of the run to the whole run.
\<close>

lemma resample_target_induct [consumes 1, case_names stop error iter]:
  assumes run: "resample_target integers entropy s = Some y"
    and stop: "\<And>s. \<not> array_equal (target_location s) (agent_location s) \<Longrightarrow> P s (s, Inr ())"
    and err: "\<And>s t e. array_equal (target_location s) (agent_location s) \<Longrightarrow>
                draw integers entropy s = (t, Inl e) \<Longrightarrow> P s (t, Inl e)"
    and iter: "\<And>s t p y. array_equal (target_location s) (agent_location s) \<Longrightarrow>
                draw integers entropy s = (t, Inr p) \<Longrightarrow>
                resample_target integers entropy (t\<lparr>target_location := p\<rparr>) = Some y \<Longrightarrow>
                P (t\<lparr>target_location := p\<rparr>) y \<Longrightarrow> P s y"
  shows "P s y"
proof -
  let ?Q = "\<lambda>i e s y. i = integers \<longrightarrow> e = entropy \<longrightarrow>
              resample_target integers entropy s = Some y \<and> P s y"
  have "?Q integers entropy s y"
  proof (rule resample_target.raw_induct [where P = ?Q, OF _ run])
    fix f i e s y
    assume IH: "\<And>i e s y. f i e s = Some y \<Longrightarrow> ?Q i e s y"
    assume body:
      "(if array_equal (target_location s) (agent_location s) then
          (case draw i e s of
             (s', Inl e) \<Rightarrow> Some (s', Inl e)
           | (s', Inr p) \<Rightarrow> f i e (s'\<lparr>target_location := p\<rparr>))
        else Some (s, Inr ())) = Some y"
    show "?Q i e s y"
    proof (intro impI)
      assume i: "i = integers" and e: "e = entropy"
      show "resample_target integers entropy s = Some y \<and> P s y"
      proof (cases "array_equal (target_location s) (agent_location s)")
        case False
        with body have "y = (s, Inr ())" by simp
        with False show ?thesis by (simp add: resample_target.simps [of integers entropy s] stop)
      next
        case True
        obtain t r where d: "draw integers entropy s = (t, r)" by (cases "draw integers entropy s")
        show ?thesis
        proof (cases r)
          case (Inl x)
          with body True d i e have "y = (t, Inl x)" by simp
          with True d Inl show ?thesis
            by (simp add: resample_target.simps [of integers entropy s] err)
        next
          case (Inr p)
          with body True d i e have "f integers entropy (t\<lparr>target_location := p\<rparr>) = Some y"
            by simp
          from IH [OF this]
          have rec: "resample_target integers entropy (t\<lparr>target_location := p\<rparr>) = Some y"
            and P: "P (t\<lparr>target_location := p\<rparr>) y" by simp_all
          from True d Inr rec have "resample_target integers entropy s = Some y"
            by (simp add: resample_target.simps [of integers entropy s])
          moreover from True d Inr rec P have "P s y" by (auto intro: iter)
          ultimately show ?thesis by simp
        qed
      qed
    qed
  qed
  then show ?thesis by simp
qed

lemma resample_target_distinct:
  assumes "resample_target integers entropy s = Some (s', Inr u)"
  shows "\<not> array_equal (target_location s') (agent_location s')"
proof -
  have "\<forall>t v. y = (t, Inr v) \<longrightarrow> \<not> array_equal (target_location t) (agent_location t)"
    if "resample_target integers entropy s = Some y" for y
    using that by (induction rule: resample_target_induct) auto
  with assms show ?thesis by blast
qed

text \<open>The shape of a call of \<open>reset\<close> that returns a value.\<close>

lemma reset_success:
  assumes "reset seeding integers entropy seed s = Some (s', Inr v)"
  shows "\<exists>s1 s2 p u. super_reset seeding seed s = (s1, Inr ()) \<and>
           draw integers entropy s1 = (s2, Inr p) \<and>
           resample_target integers entropy (s2\<lparr>agent_location := p, target_location := p\<rparr>)
             = Some (s', Inr u) \<and>
           v = (get_obs s', get_info s')"
  using assms
  by (auto simp: reset_def Let_def split: prod.splits sum.splits option.splits)

subsection \<open>A concrete run\<close>

lemma mod_offset_bound:
  fixes low high x :: int
  assumes "low < high"
  shows "low \<le> low + x mod (high - low)" and "low + x mod (high - low) < high"
proof -
  from assms have "0 \<le> x mod (high - low)" and "x mod (high - low) < high - low"
    by simp_all
  then show "low \<le> low + x mod (high - low)" and "low + x mod (high - low) < high"
    by linarith+
qed

lemma demo_integers_in_range: "integers_in_range demo_integers"
  by (auto simp: integers_in_range_def demo_integers_def not_le mod_offset_bound
      split: if_splits)

lemma demo_reset:
  "reset demo_seeding demo_integers 99 (Some 0) (demo_env 5 (- 1, - 1) (- 1, - 1)) =
     Some ((demo_env 5 (0, 0) (1, 0))\<lparr>np_random := Some 3\<rparr>,
           Inr (\<lparr>agent = (0, 0), target = (1, 0)\<rparr>, \<lparr>distance = 1\<rparr>))"
  by (simp add: reset_def super_reset_def demo_seeding_def draw_def np_random_get_def
      demo_integers_def demo_env_def resample_target.simps array_equal_def get_obs_def
      get_info_def norm_ord1_def vsub_def wrap64_def float64_of_int_exact Let_def)

subsection \<open>The positions a reset leaves\<close>

text \<open>
  Claim C3. Immediately after every call of \<open>reset\<close> that returns a value, on a grid
  of any size (so of every size from 2 on), the agent's position differs from the
  target's.
\<close>

theorem reset_agent_not_target:
  assumes "reset seeding integers entropy seed s = Some (s', Inr v)"
  shows "agent_location s' \<noteq> target_location s'"
proof -
  from reset_success [OF assms] obtain s2 p u where
    "resample_target integers entropy (s2\<lparr>agent_location := p, target_location := p\<rparr>)
       = Some (s', Inr u)" by blast
  from resample_target_distinct [OF this] show ?thesis
    by (auto simp: array_equal_def)
qed

theorem reset_agent_not_target_witness:
  "reset demo_seeding demo_integers 99 (Some 0) (demo_env 5 (- 1, - 1) (- 1, - 1)) =
     Some ((demo_env 5 (0, 0) (1, 0))\<lparr>np_random := Some 3\<rparr>,
           Inr (\<lparr>agent = (0, 0), target = (1, 0)\<rparr>, \<lparr>distance = 1\<rparr>)) \<and>
   agent_location ((demo_env 5 (0, 0) (1, 0))\<lparr>np_random := Some 3\<rparr>) \<noteq>
   target_location ((demo_env 5 (0, 0) (1, 0))\<lparr>np_random := Some 3\<rparr>)"
  using reset_agent_not_target [OF demo_reset] demo_reset by simp

lemma resample_target_in_grid:
  assumes "integers_in_range integers" and "in_grid s"
    and "resample_target integers entropy s = Some (s', r)"
  shows "in_grid s'"
proof -
  have "in_grid s \<longrightarrow> in_grid (fst y)"
    if "resample_target integers entropy s = Some y" for y
    using that
  proof (induction rule: resample_target_induct)
    case (stop s)
    then show ?case by simp
  next
    case (error s t e)
    then show ?case by (simp add: in_grid_def draw_frame)
  next
    case (iter s t p y)
    from draw_in_range [OF assms(1) iter(2)] draw_frame(1-3) [OF iter(2)] iter(4)
    show ?case by (simp add: in_grid_def)
  qed
  with assms show ?thesis by fastforce
qed

lemma reset_in_grid:
  assumes "integers_in_range integers"
    and "reset seeding integers entropy seed s = Some (s', Inr v)"
  shows "in_grid s'"
proof -
  from reset_success [OF assms(2)] obtain s1 s2 p u where
    d: "draw integers entropy s1 = (s2, Inr p)" and
    r: "resample_target integers entropy (s2\<lparr>agent_location := p, target_location := p\<rparr>)
       = Some (s', Inr u)" by blast
  from draw_in_range [OF assms(1) d] draw_frame(1) [OF d]
  have "in_grid (s2\<lparr>agent_location := p, target_location := p\<rparr>)"
    by (simp add: in_grid_def)
  from resample_target_in_grid [OF assms(1) this r] show ?thesis .
qed

lemma step_in_grid:
  assumes "in_grid s" and "a \<in> {0, 1, 2, 3}"
  shows "in_grid (fst (step s a))"
  using assms by (auto simp: step_valid in_grid_def clip_def)

lemma run_steps_in_grid:
  "in_grid s \<Longrightarrow> set as \<subseteq> {0, 1, 2, 3} \<Longrightarrow> in_grid (run_steps s as)"
proof (induction as arbitrary: s)
  case Nil
  then show ?case by simp
next
  case (Cons a as)
  then show ?case by (simp add: step_in_grid)
qed

text \<open>
  Claim C4. Let the generator keep numpy's promise about the range of its samples.
  After a call of \<open>reset\<close> that returns a value, and after every further call of
  \<open>step\<close> along any finite sequence of valid actions, both coordinates of the agent's
  and of the target's position lie in \<open>[0, size - 1]\<close>. (The empty sequence is the
  state right after the reset; a reset that returns a value implies a size of at least
  2, so no bound on the size is assumed.)
\<close>

theorem positions_stay_in_grid:
  assumes "integers_in_range integers"
    and "reset seeding integers entropy seed s0 = Some (s1, Inr v)"
    and "set as \<subseteq> {0, 1, 2, 3}"
  shows "in_grid (run_steps s1 as)"
  using run_steps_in_grid [OF reset_in_grid [OF assms(1,2)] assms(3)] .

theorem positions_stay_in_grid_witness:
  "integers_in_range demo_integers \<and>
   reset demo_seeding demo_integers 99 (Some 0) (demo_env 5 (- 1, - 1) (- 1, - 1)) =
     Some ((demo_env 5 (0, 0) (1, 0))\<lparr>np_random := Some 3\<rparr>,
           Inr (\<lparr>agent = (0, 0), target = (1, 0)\<rparr>, \<lparr>distance = 1\<rparr>)) \<and>
   set [2, 3, 1, 1, 0] \<subseteq> {0, 1, 2, 3 :: int} \<and>
   in_grid (run_steps ((demo_env 5 (0, 0) (1, 0))\<lparr>np_random := Some 3\<rparr>) [2, 3, 1, 1, 0])"
proof -
  have a: "set [2, 3, 1, 1, 0] \<subseteq> {0, 1, 2, 3 :: int}" by simp
  from positions_stay_in_grid [OF demo_integers_in_range demo_reset a]
  show ?thesis using demo_integers_in_range demo_reset a by blast
qed

lemma get_info_exact:
  assumes "\<bar>fst (agent_location s) - fst (target_location s)\<bar> +
           \<bar>snd (agent_location s) - snd (target_location s)\<bar> < 2 ^ 53"
  shows "distance (get_info s) =
           \<bar>fst (agent_location s) - fst (target_location s)\<bar> +
           \<bar>snd (agent_location s) - snd (target_location s)\<bar>"
proof -
  have "(2::int) ^ 53 < 2 ^ 63" by simp
  with assms have "\<bar>fst (agent_location s) - fst (target_location s)\<bar> < 2 ^ 63"
    and "\<bar>snd (agent_location s) - snd (target_location s)\<bar> < 2 ^ 63" by linarith+
  then have "vsub (agent_location s) (target_location s) =
      (fst (agent_location s) - fst (target_location s),
       snd (agent_location s) - snd (target_location s))"
    by (rule vsub_exact)
  with assms show ?thesis by (simp add: get_info_def norm_ord1_exact)
qed

lemma get_info_exact_in_grid:
  assumes "in_grid s" and "size_env s \<le> 2 ^ 52"
  shows "distance (get_info s) =
           \<bar>fst (agent_location s) - fst (target_location s)\<bar> +
           \<bar>snd (agent_location s) - snd (target_location s)\<bar>"
proof (rule get_info_exact)
  have "(2::int) * 2 ^ 52 = 2 ^ 53" by simp
  with assms show "\<bar>fst (agent_location s) - fst (target_location s)\<bar> +
           \<bar>snd (agent_location s) - snd (target_location s)\<bar> < 2 ^ 53"
    unfolding in_grid_def by linarith
qed







subsection \<open>Seeded resets\<close>

lemma draw_same_rng:
  assumes "same_rng s t" and "draw integers e1 s = (s', r)"
  shows "\<exists>t'. draw integers e2 t = (t', r) \<and> same_rng s' t'"
  using assms
  by (auto simp: same_rng_def draw_def np_random_get_def split: option.splits prod.splits)

lemma draw_same_run:
  assumes "same_run s t" and "draw integers e1 s = (s', r)"
  shows "\<exists>t'. draw integers e2 t = (t', r) \<and> same_run s' t'"
proof -
  from assms(1) have "same_rng s t" by (simp add: same_run_def)
  from draw_same_rng [OF this assms(2)] obtain t' where
    t': "draw integers e2 t = (t', r)" "same_rng s' t'" by blast
  with assms(1) draw_frame(2,3) [OF assms(2)] draw_frame(2,3) [OF t'(1)]
  show ?thesis by (auto simp: same_run_def)
qed

lemma resample_target_same_run:
  assumes "resample_target integers e1 s = Some (s', r)" and "same_run s t"
  shows "\<exists>t'. resample_target integers e2 t = Some (t', r) \<and> same_run s' t'"
proof -
  have "\<forall>t. same_run s t \<longrightarrow>
          (\<exists>t'. resample_target integers e2 t = Some (t', snd y) \<and> same_run (fst y) t')"
    if "resample_target integers e1 s = Some y" for y
    using that
  proof (induction rule: resample_target_induct)
    case (stop s)
    then show ?case
      by (auto simp: resample_target.simps [of integers e2] same_run_def)
  next
    case (error s u e)
    show ?case
    proof (intro allI impI)
      fix t assume st: "same_run s t"
      from draw_same_run [OF st error(2)] obtain t' where
        "draw integers e2 t = (t', Inl e)" "same_run u t'" by blast
      with error(1) st show "\<exists>t'. resample_target integers e2 t = Some (t', snd (u, Inl e)) \<and>
          same_run (fst (u, Inl e)) t'"
        by (auto simp: resample_target.simps [of integers e2 t] same_run_def)
    qed
  next
    case (iter s u p y)
    show ?case
    proof (intro allI impI)
      fix t assume st: "same_run s t"
      from draw_same_run [OF st iter(2)] obtain t' where
        t': "draw integers e2 t = (t', Inr p)" "same_run u t'" by blast
      then have "same_run (u\<lparr>target_location := p\<rparr>) (t'\<lparr>target_location := p\<rparr>)"
        by (auto simp: same_run_def same_rng_def split: option.splits)
      with iter(4) obtain t'' where
        "resample_target integers e2 (t'\<lparr>target_location := p\<rparr>) = Some (t'', snd y)"
        "same_run (fst y) t''" by blast
      with iter(1) st t'(1)
      show "\<exists>t'. resample_target integers e2 t = Some (t', snd y) \<and> same_run (fst y) t'"
        by (auto simp: resample_target.simps [of integers e2 t] same_run_def)
    qed
  qed
  with assms show ?thesis by fastforce
qed

lemma reset_seeded_same:
  assumes "size_env s = size_env t"
    and "reset seeding integers e1 (Some seed) s = Some (s', r)"
  shows "\<exists>t'. reset seeding integers e2 (Some seed) t = Some (t', r) \<and>
           (\<forall>v. r = Inr v \<longrightarrow> same_run s' t')"
proof (cases "seeding seed")
  case (Inl e)
  with assms(2) show ?thesis by (auto simp: reset_def super_reset_def)
next
  case (Inr g)
  let ?s1 = "s\<lparr>np_random := Some g\<rparr>" and ?t1 = "t\<lparr>np_random := Some g\<rparr>"
  have rng: "same_rng ?s1 ?t1" using assms(1) by (simp add: same_rng_def)
  obtain s2 d where d: "draw integers e1 ?s1 = (s2, d)" by (cases "draw integers e1 ?s1")
  from draw_same_rng [OF rng d] obtain t2 where
    t2: "draw integers e2 ?t1 = (t2, d)" "same_rng s2 t2" by blast
  show ?thesis
  proof (cases d)
    case (Inl e)
    with assms(2) Inr d t2 show ?thesis by (auto simp: reset_def super_reset_def)
  next
    case p: (Inr p)
    let ?s4 = "s2\<lparr>agent_location := p, target_location := p\<rparr>"
    let ?t4 = "t2\<lparr>agent_location := p, target_location := p\<rparr>"
    have run: "same_run ?s4 ?t4" using t2(2) by (auto simp: same_run_def same_rng_def split: option.splits)
    from assms(2) Inr d p obtain s5 u where
      s5: "resample_target integers e1 ?s4 = Some (s5, u)"
      by (auto simp: reset_def super_reset_def Let_def split: option.splits)
    from resample_target_same_run [OF s5 run] obtain t5 where
      t5: "resample_target integers e2 ?t4 = Some (t5, u)" "same_run s5 t5" by blast
    from t5(2) have "get_obs s5 = get_obs t5" "get_info s5 = get_info t5"
      by (simp_all add: same_run_def get_obs_def get_info_def)
    with assms(2) Inr d p s5 t2(1) t5 show ?thesis
      by (cases u) (auto simp: reset_def super_reset_def Let_def)
  qed
qed

text \<open>
  Claim C6. \<open>reset\<close> is a function of the seed and the size. Two calls with the same
  integer seed, on environments of the same size but otherwise arbitrary (other
  positions, another generator or none), have the same outcome: both run forever, or
  both raise the same error, or both return the same observation and info; and when
  both return a value the agent's and the target's positions they leave are the same.
\<close>

theorem reset_deterministic:
  fixes s1 s2 :: "('b, 'g) env"
  assumes "size_env s1 = size_env s2"
  shows "map_option snd (reset seeding integers e1 (Some seed) s1) =
         map_option snd (reset seeding integers e2 (Some seed) s2) \<and>
         (\<forall>t1 t2 v1 v2.
            reset seeding integers e1 (Some seed) s1 = Some (t1, Inr v1) \<and>
            reset seeding integers e2 (Some seed) s2 = Some (t2, Inr v2) \<longrightarrow>
            agent_location t1 = agent_location t2 \<and> target_location t1 = target_location t2)"
proof (intro conjI allI impI)
  show "map_option snd (reset seeding integers e1 (Some seed) s1) =
        map_option snd (reset seeding integers e2 (Some seed) s2)"
  proof (cases "reset seeding integers e1 (Some seed) s1")
    case None
    show ?thesis
    proof (cases "reset seeding integers e2 (Some seed) s2")
      case None
      with \<open>reset seeding integers e1 (Some seed) s1 = None\<close> show ?thesis by simp
    next
      case (Some y)
      obtain t r where "y = (t, r)" by (cases y)
      with Some reset_seeded_same [OF assms [symmetric], of seeding integers e2 seed t r e1] None
      show ?thesis by auto
    qed
  next
    case (Some y)
    obtain t r where "y = (t, r)" by (cases y)
    with Some reset_seeded_same [OF assms, of seeding integers e1 seed t r e2]
    show ?thesis by auto
  qed
next
  fix t1 t2 v1 v2
  assume a: "reset seeding integers e1 (Some seed) s1 = Some (t1, Inr v1) \<and>
             reset seeding integers e2 (Some seed) s2 = Some (t2, Inr v2)"
  with reset_seeded_same [OF assms, of seeding integers e1 seed t1 "Inr v1" e2]
  have "same_run t1 t2" by auto
  then show "agent_location t1 = agent_location t2" "target_location t1 = target_location t2"
    by (simp_all add: same_run_def)
qed

lemma demo_reset_other:
  "reset demo_seeding demo_integers 7 (Some 0)
     ((demo_env 5 (4, 4) (2, 1))\<lparr>np_random := Some 41\<rparr>) =
     Some ((demo_env 5 (0, 0) (1, 0))\<lparr>np_random := Some 3\<rparr>,
           Inr (\<lparr>agent = (0, 0), target = (1, 0)\<rparr>, \<lparr>distance = 1\<rparr>))"
  by (simp add: reset_def super_reset_def demo_seeding_def draw_def np_random_get_def
      demo_integers_def demo_env_def resample_target.simps array_equal_def get_obs_def
      get_info_def norm_ord1_def vsub_def wrap64_def float64_of_int_exact Let_def)

theorem reset_deterministic_witness:
  "size_env (demo_env 5 (- 1, - 1) (- 1, - 1)) =
     size_env ((demo_env 5 (4, 4) (2, 1))\<lparr>np_random := Some 41\<rparr>) \<and>
   reset demo_seeding demo_integers 99 (Some 0) (demo_env 5 (- 1, - 1) (- 1, - 1)) =
     Some ((demo_env 5 (0, 0) (1, 0))\<lparr>np_random := Some 3\<rparr>,
           Inr (\<lparr>agent = (0, 0), target = (1, 0)\<rparr>, \<lparr>distance = 1\<rparr>)) \<and>
   reset demo_seeding demo_integers 7 (Some 0)
       ((demo_env 5 (4, 4) (2, 1))\<lparr>np_random := Some 41\<rparr>) =
     Some ((demo_env 5 (0, 0) (1, 0))\<lparr>np_random := Some 3\<rparr>,
           Inr (\<lparr>agent = (0, 0), target = (1, 0)\<rparr>, \<lparr>distance = 1\<rparr>)) \<and>
   map_option snd
     (reset demo_seeding demo_integers 99 (Some 0) (demo_env 5 (- 1, - 1) (- 1, - 1))) =
   map_option snd
     (reset demo_seeding demo_integers 7 (Some 0)
        ((demo_env 5 (4, 4) (2, 1))\<lparr>np_random := Some 41\<rparr>))"
proof -
  have sz: "size_env (demo_env 5 (- 1, - 1) (- 1, - 1)) =
     size_env ((demo_env 5 (4, 4) (2, 1))\<lparr>np_random := Some 41\<rparr>)"
    by (simp add: demo_env_def)
  from reset_deterministic [OF sz, of demo_seeding demo_integers 99 0 7]
  show ?thesis using sz demo_reset demo_reset_other by simp
qed

section \<open>Construction, and step before any reset\<close>

text \<open>
  Claim C9, as stated: for every size below 2 the construction fails. It does not for
  the size 1: \<open>__init__\<close> checks nothing about the size, the bounds \<open>[0, 0]\<close> of the
  two boxes are in order, and the construction succeeds.
\<close>

theorem init_size_one_succeeds:
  "init box_checked 1 = Inr (demo_env 1 (- 1, - 1) (- 1, - 1))"
  by (simp add: init_def box_checked_def demo_env_def)

lemma box_checked_checks_bounds: "box_checks_bounds box_checked"
  by (simp add: box_checks_bounds_def box_checked_def)

text \<open>
  Claim C9, amended. For every size below 1 the construction fails: \<open>__init__\<close> makes
  no check of its own, but the library refuses the box \<open>[0, size - 1]\<close>, whose lower
  bound lies above the upper one, and its \<open>ValueError\<close> ends the construction. For the
  size 1 (as for every larger one) the construction succeeds, and it leaves both
  positions at \<open>(-1, -1)\<close> and no generator.
\<close>

theorem init_fails_below_one:
  assumes "box_checks_bounds box"
  shows "(n \<le> 0 \<longrightarrow> init box n = Inl ValueError) \<and>
         (1 \<le> n \<longrightarrow>
            (\<exists>b. box 0 (n - 1) = Inr b \<and>
                 init box n =
                   Inr \<lparr>size_env = n, agent_location = (- 1, - 1),
                        target_location = (- 1, - 1), observation_space = (b, b),
                        action_space = 4, np_random = None\<rparr>))"
proof (intro conjI impI)
  assume "n \<le> 0"
  then have "n - 1 < 0" by simp
  with assms have "box 0 (n - 1) = Inl ValueError"
    unfolding box_checks_bounds_def by blast
  then show "init box n = Inl ValueError" by (simp add: init_def)
next
  assume "1 \<le> n"
  then have "0 \<le> n - 1" by simp
  with assms obtain b where "box 0 (n - 1) = Inr b"
    unfolding box_checks_bounds_def by blast
  then show "\<exists>b. box 0 (n - 1) = Inr b \<and>
                 init box n =
                   Inr \<lparr>size_env = n, agent_location = (- 1, - 1),
                        target_location = (- 1, - 1), observation_space = (b, b),
                        action_space = 4, np_random = None\<rparr>"
    by (simp add: init_def)
qed

theorem init_fails_below_one_witness:
  "box_checks_bounds box_checked \<and>
   (0::int) \<le> 0 \<and> (init box_checked 0 :: error + (int \<times> int, nat) env) = Inl ValueError \<and>
   (1::int) \<le> 1 \<and> box_checked 0 (1 - 1) = Inr (0, 0) \<and>
   init box_checked 1 =
     Inr \<lparr>size_env = 1, agent_location = (- 1, - 1), target_location = (- 1, - 1),
          observation_space = ((0, 0), (0, 0)), action_space = 4,
          np_random = (None :: nat option)\<rparr>"
proof -
  note c = box_checked_checks_bounds
  from init_fails_below_one [OF c, of 0, where 'b = nat]
  have "(init box_checked 0 :: error + (int \<times> int, nat) env) = Inl ValueError" by simp
  moreover from init_fails_below_one [OF c, of 1, where 'b = nat]
  have "init box_checked 1 =
     Inr \<lparr>size_env = 1, agent_location = (- 1, - 1), target_location = (- 1, - 1),
          observation_space = ((0, 0), (0, 0)), action_space = 4,
          np_random = (None :: nat option)\<rparr>"
    by (auto simp: box_checked_def)
  ultimately show ?thesis using c by (simp add: box_checked_def)
qed

text \<open>
  What the size 1 then does to \<open>reset\<close>: a call that returns a value needs a size of
  at least 2, and on a grid of size 1 the loop never ends when the generator keeps its
  promise and the seed is accepted.
\<close>

lemma resample_target_frame:
  assumes "resample_target integers entropy s = Some (s', r)"
  shows "size_env s' = size_env s \<and> agent_location s' = agent_location s"
proof -
  have "size_env (fst y) = size_env s \<and> agent_location (fst y) = agent_location s"
    if "resample_target integers entropy s = Some y" for y
    using that by (induction rule: resample_target_induct) (auto simp: draw_frame)
  with assms show ?thesis by fastforce
qed

lemma reset_size:
  assumes "reset seeding integers entropy seed s = Some (s', Inr v)"
  shows "size_env s' = size_env s"
proof -
  from reset_success [OF assms] obtain s1 s2 p u where
    sr: "super_reset seeding seed s = (s1, Inr ())" and
    d: "draw integers entropy s1 = (s2, Inr p)" and
    l: "resample_target integers entropy (s2\<lparr>agent_location := p, target_location := p\<rparr>)
       = Some (s', Inr u)" by blast
  from sr have "size_env s1 = size_env s"
    by (auto simp: super_reset_def split: option.splits sum.splits)
  with draw_frame(1) [OF d] resample_target_frame [OF l] show ?thesis by simp
qed

lemma reset_value_size:
  assumes "integers_in_range integers"
    and "reset seeding integers entropy seed s = Some (s', Inr v)"
  shows "2 \<le> size_env s"
proof (rule ccontr)
  assume "\<not> 2 \<le> size_env s"
  with reset_size [OF assms(2)] have "size_env s' \<le> 1" by simp
  with reset_in_grid [OF assms] have "agent_location s' = target_location s'"
    by (auto simp: in_grid_def prod_eq_iff)
  moreover from reset_success [OF assms(2)] obtain s2 p u where
    "resample_target integers entropy (s2\<lparr>agent_location := p, target_location := p\<rparr>)
       = Some (s', Inr u)" by blast
  from resample_target_distinct [OF this]
  have "agent_location s' \<noteq> target_location s'" by (auto simp: array_equal_def)
  ultimately show False by simp
qed

lemma resample_target_no_error:
  assumes ok: "\<And>g. \<exists>g' p. integers g 0 n = (g', Inr p)"
    and "resample_target integers entropy s = Some (s', r)" and "size_env s = n"
  shows "\<exists>u. r = Inr u"
proof -
  have "size_env s = n \<longrightarrow> (\<exists>u. snd y = Inr u)"
    if "resample_target integers entropy s = Some y" for y
    using that
  proof (induction rule: resample_target_induct)
    case (stop s)
    then show ?case by simp
  next
    case (error s t e)
    show ?case
    proof
      assume "size_env s = n"
      with error(2) ok have False
        by (auto simp: draw_def np_random_get_def split: option.splits prod.splits)
          (metis Inl_Inr_False snd_conv)+
      then show "\<exists>u. snd (t, Inl e) = Inr u" ..
    qed
  next
    case (iter s t p y)
    with draw_frame(1) [OF iter(2)] show ?case by simp
  qed
  with assms(2,3) show ?thesis by fastforce
qed

lemma reset_size_one_runs_forever:
  assumes "integers_in_range integers"
    and ok: "\<And>g. \<exists>g' p. integers g 0 1 = (g', Inr p)"
    and "size_env s = 1"
    and sr: "super_reset seeding seed s = (s1, Inr ())"
  shows "reset seeding integers entropy seed s = None"
proof (cases "reset seeding integers entropy seed s")
  case None
  then show ?thesis .
next
  case (Some y)
  obtain s' r where y: "y = (s', r)" by (cases y)
  from sr assms(3) have s1: "size_env s1 = 1"
    by (auto simp: super_reset_def split: option.splits sum.splits)
  obtain s2 d where d: "draw integers entropy s1 = (s2, d)"
    by (cases "draw integers entropy s1")
  with ok s1 obtain p where p: "d = Inr p"
    by (auto simp: draw_def np_random_get_def split: option.splits prod.splits)
      (metis Inl_Inr_False snd_conv sum.exhaust_sel)+
  let ?s4 = "s2\<lparr>agent_location := p, target_location := p\<rparr>"
  from Some y sr d p obtain u where
    l: "resample_target integers entropy ?s4 = Some (s', u)"
    by (auto simp: reset_def Let_def split: option.splits sum.splits)
  have "size_env ?s4 = 1" using draw_frame(1) [OF d] s1 by simp
  from resample_target_no_error [OF ok l this] obtain w where "u = Inr w" by blast
  with sr d p l
  have "reset seeding integers entropy seed s = Some (s', Inr (get_obs s', get_info s'))"
    by (simp add: reset_def Let_def)
  from reset_value_size [OF assms(1) this] assms(3) show ?thesis by simp
qed

lemma demo_reset_size_one:
  "reset demo_seeding demo_integers 99 (Some 0) (demo_env 1 (- 1, - 1) (- 1, - 1)) = None"
proof (rule reset_size_one_runs_forever [OF demo_integers_in_range])
  show "\<exists>g' p. demo_integers g 0 1 = (g', Inr p)" for g
    by (simp add: demo_integers_def)
  show "size_env (demo_env 1 (- 1, - 1) (- 1, - 1)) = 1"
    by (simp add: demo_env_def)
  show "super_reset demo_seeding (Some 0) (demo_env 1 (- 1, - 1) (- 1, - 1)) =
          ((demo_env 1 (- 1, - 1) (- 1, - 1))\<lparr>np_random := Some 0\<rparr>, Inr ())"
    by (simp add: super_reset_def demo_seeding_def)
qed

text \<open>
  Claim C10, as stated: on an environment that was constructed and never reset,
  \<open>step\<close> fails. It does not: there is no such guard, and with the action 0 on a grid
  of size 5 the call returns a value computed from the positions \<open>(-1, -1)\<close>.
\<close>

theorem step_before_reset_returns:
  "init box_checked 5 = Inr (demo_env 5 (- 1, - 1) (- 1, - 1)) \<and>
   step (demo_env 5 (- 1, - 1) (- 1, - 1)) 0 =
     (demo_env 5 (0, 0) (- 1, - 1),
      Inr \<lparr>observation = \<lparr>agent = (0, 0), target = (- 1, - 1)\<rparr>, reward = 0,
           terminated = False, truncated = False, info = \<lparr>distance = 2\<rparr>\<rparr>)"
  by (simp add: init_def box_checked_def demo_env_def step_valid spec_direction_def clip_def
      vadd_def vsub_def wrap64_def array_equal_def norm_ord1_def float64_of_int_exact)

text \<open>
  Claim C10, amended. On an environment of size at least 1 that was constructed and
  never reset, \<open>step\<close> with an action in \<open>{0,1,2,3}\<close> does not fail: it moves from
  \<open>(-1, -1)\<close> and clips, which puts the agent at \<open>(0, 0)\<close>, leaves the target at
  \<open>(-1, -1)\<close>, and returns reward 0, \<open>terminated\<close> and \<open>truncated\<close> false, and the
  distance 2.
\<close>

theorem step_before_reset:
  assumes "init box n = Inr s" and "1 \<le> n" and "a \<in> {0, 1, 2, 3}"
  shows "step s a =
           (s\<lparr>agent_location := (0, 0)\<rparr>,
            Inr \<lparr>observation = \<lparr>agent = (0, 0), target = (- 1, - 1)\<rparr>, reward = 0,
                 terminated = False, truncated = False, info = \<lparr>distance = 2\<rparr>\<rparr>)"
proof -
  from assms(1) have s: "size_env s = n" "agent_location s = (- 1, - 1)"
    "target_location s = (- 1, - 1)"
    by (auto simp: init_def split: sum.splits)
  from spec_direction_bounds [of a]
  have "\<bar>fst (- 1 :: int, - 1 :: int) + fst (spec_direction a)\<bar> < 2 ^ 63"
    and "\<bar>snd (- 1 :: int, - 1 :: int) + snd (spec_direction a)\<bar> < 2 ^ 63" by simp_all
  then have "vadd (- 1, - 1) (spec_direction a) =
      (- 1 + fst (spec_direction a), - 1 + snd (spec_direction a))"
    by (simp add: vadd_exact)
  with assms(2) spec_direction_bounds [of a]
  have "clip (vadd (- 1, - 1) (spec_direction a)) 0 (n - 1) = (0, 0)"
    by (simp add: clip_def)
  then show ?thesis
    by (simp add: step_valid [OF assms(3)] s array_equal_def norm_ord1_def vsub_def wrap64_def
        float64_of_int_exact)
qed

theorem step_before_reset_witness:
  "init box_checked 5 = Inr (demo_env 5 (- 1, - 1) (- 1, - 1)) \<and> (1::int) \<le> 5 \<and>
   (3::int) \<in> {0, 1, 2, 3} \<and>
   step (demo_env 5 (- 1, - 1) (- 1, - 1)) 3 =
     (demo_env 5 (0, 0) (- 1, - 1),
      Inr \<lparr>observation = \<lparr>agent = (0, 0), target = (- 1, - 1)\<rparr>, reward = 0,
           terminated = False, truncated = False, info = \<lparr>distance = 2\<rparr>\<rparr>)"
proof -
  have i: "init box_checked 5 = Inr (demo_env 5 (- 1, - 1) (- 1, - 1))"
    by (simp add: init_def box_checked_def demo_env_def)
  have a: "(3::int) \<in> {0, 1, 2, 3}" and n: "(1::int) \<le> 5" by simp_all
  from step_before_reset [OF i n a] show ?thesis using i by (simp add: demo_env_def)
qed

end
